theory Spec2Isabelle
  imports Main "HOL-Library.Word" "HOL-Library.Sublist"
begin

section \<open>JavaScript strings and values\<close>

text \<open>
  A JavaScript string is a sequence of UTF-16 code units: \<open>length\<close> is \<open>text.length\<close>
  and \<open>take n\<close> is \<open>text.slice(0, n)\<close>.  ASCII literals of the source are written
  \<open>js ''...''\<close>.
\<close>

type_synonym jsstring = "16 word list"

definition js :: "string \<Rightarrow> jsstring" where
  "js s = map of_char s"

text \<open>\<open>text.includes(p)\<close>.\<close>

fun js_includes :: "jsstring \<Rightarrow> jsstring \<Rightarrow> bool" where
  "js_includes [] p = (p = [])"
| "js_includes (u # us) p = (prefix p (u # us) \<or> js_includes us p)"

text \<open>White space and line terminators, as \<open>String.prototype.trim\<close> removes them.\<close>

definition is_space :: "16 word \<Rightarrow> bool" where
  "is_space u =
     (u \<in> {0x9, 0xA, 0xB, 0xC, 0xD, 0x20, 0xA0, 0x1680, 0x2028, 0x2029, 0x202F, 0x205F,
            0x3000, 0xFEFF}
      \<or> (0x2000 \<le> u \<and> u \<le> 0x200A))"

definition trim :: "jsstring \<Rightarrow> jsstring" where
  "trim s = rev (dropWhile is_space (rev (dropWhile is_space s)))"

text \<open>\<open>parts.join(' ')\<close>.\<close>

fun join_space :: "jsstring list \<Rightarrow> jsstring" where
  "join_space [] = []"
| "join_space [p] = p"
| "join_space (p # ps) = p @ js '' '' @ join_space ps"

text \<open>
  \<open>encodeURIComponent\<close> throws a \<open>URIError\<close> on a string with a lone surrogate; a
  string is accepted when every high surrogate is followed by a low one and no low
  surrogate stands alone.
\<close>

definition is_high :: "16 word \<Rightarrow> bool" where
  "is_high u = (0xD800 \<le> u \<and> u \<le> 0xDBFF)"

definition is_low :: "16 word \<Rightarrow> bool" where
  "is_low u = (0xDC00 \<le> u \<and> u \<le> 0xDFFF)"

fun well_formed :: "jsstring \<Rightarrow> bool" where
  "well_formed [] = True"
| "well_formed [u] = (\<not> is_high u \<and> \<not> is_low u)"
| "well_formed (u # v # r) =
     (if is_high u then is_low v \<and> well_formed r
      else \<not> is_low u \<and> well_formed (v # r))"

text \<open>The exceptions the modelled code can raise.\<close>

datatype exn = FetchError | SyntaxError | TypeError | URIError | Error jsstring

text \<open>
  What \<open>await response.json()\<close> gives: it throws on a body that is not JSON; the
  value \<open>null\<close> makes every later property read throw a \<open>TypeError\<close>; any other value
  is read through its fields (an absent field is \<open>None\<close>).
\<close>

datatype 'a json = NotJson | JsonNull | JsonObject 'a

text \<open>
  What \<open>await fetch(...)\<close> gives: the promise rejects (network failure, timeout of the
  abort signal), or resolves with a status code and a body.
\<close>

datatype 'a fetch_result = Rejects | Responds nat "'a json"

definition ok :: "nat \<Rightarrow> bool" where
  "ok st = (200 \<le> st \<and> st \<le> 299)"

text \<open>
  Property reads on the constant tables.  The tables are object literals, so a read
  \<open>TABLE[k]\<close> and the test \<open>k in TABLE\<close> also find the names that every object
  inherits from \<open>Object.prototype\<close>; the value found there is a function (or, under
  \<open>__proto__\<close>, an object), never a string.
\<close>

definition object_prototype_names :: "jsstring list" where
  "object_prototype_names = map js
     [''constructor'', ''__defineGetter__'', ''__defineSetter__'', ''hasOwnProperty'',
      ''__lookupGetter__'', ''__lookupSetter__'', ''isPrototypeOf'',
      ''propertyIsEnumerable'', ''toString'', ''valueOf'', ''__proto__'',
      ''toLocaleString'']"

datatype lookup = Undefined | Own jsstring | Inherited jsstring

definition js_get :: "(jsstring \<times> jsstring) list \<Rightarrow> jsstring \<Rightarrow> lookup" where
  "js_get tbl k =
     (case map_of tbl k of
        Some v \<Rightarrow> Own v
      | None \<Rightarrow> if k \<in> set object_prototype_names then Inherited k else Undefined)"

definition js_in :: "jsstring \<Rightarrow> (jsstring \<times> jsstring) list \<Rightarrow> bool" where
  "js_in k tbl = (js_get tbl k \<noteq> Undefined)"

fun truthy_prop :: "lookup \<Rightarrow> bool" where
  "truthy_prop Undefined = False"
| "truthy_prop (Own s) = (s \<noteq> [])"
| "truthy_prop (Inherited k) = True"

text \<open>Truthiness of a value that is a string or absent.\<close>

fun truthy :: "jsstring option \<Rightarrow> bool" where
  "truthy None = False"
| "truthy (Some s) = (s \<noteq> [])"

section \<open>The translate route (Google first, MyMemory as fallback)\<close>

definition LANGUAGE_NAMES :: "(jsstring \<times> jsstring) list" where
  "LANGUAGE_NAMES = map (\<lambda>(k, v). (js k, js v))
     [(''en'', ''English''), (''hi'', ''Hindi''), (''bn'', ''Bengali''), (''ta'', ''Tamil''),
      (''te'', ''Telugu''), (''kn'', ''Kannada''), (''ml'', ''Malayalam''),
      (''mr'', ''Marathi''), (''gu'', ''Gujarati''), (''pa'', ''Punjabi''), (''or'', ''Odia''),
      (''as'', ''Assamese''), (''sa'', ''Sanskrit''), (''sd'', ''Sindhi''), (''ur'', ''Urdu''),
      (''ne'', ''Nepali''), (''bo'', ''Tibetan''), (''ks'', ''Kashmiri''),
      (''mni'', ''Meitei (Manipuri)''), (''sat'', ''Santali''), (''brx'', ''Bodo''),
      (''doi'', ''Dogri''), (''kok'', ''Konkani''), (''mai'', ''Maithili''),
      (''gom'', ''Konkani''), (''dcc'', ''Deccan'')]"

definition GOOGLE_LANGUAGE_CODES :: "(jsstring \<times> jsstring) list" where
  "GOOGLE_LANGUAGE_CODES = map (\<lambda>(k, v). (js k, js v))
     [(''en'', ''en''), (''hi'', ''hi''), (''bn'', ''bn''), (''ta'', ''ta''), (''te'', ''te''),
      (''kn'', ''kn''), (''ml'', ''ml''), (''mr'', ''mr''), (''gu'', ''gu''), (''pa'', ''pa''),
      (''or'', ''or''), (''as'', ''as''), (''sa'', ''sa''), (''sd'', ''sd''), (''ur'', ''ur''),
      (''ne'', ''ne''), (''bo'', ''bo''), (''ks'', ''ks''), (''mni'', ''mni-Mtei''),
      (''sat'', ''sat''), (''brx'', ''brx''), (''doi'', ''doi''), (''kok'', ''gom''),
      (''mai'', ''mai''), (''gom'', ''gom'')]"

text \<open>
  The body that \<open>translateWithGoogleAPI\<close> posts, before \<open>JSON.stringify\<close> (its constant
  fields left out): the two codes are what the reads of \<open>GOOGLE_LANGUAGE_CODES\<close> gave.
\<close>

record google_request =
  g_key :: jsstring
  g_q :: jsstring
  g_source :: lookup
  g_target :: lookup

text \<open>
  What the code reads of Google's answer: whether \<open>data.error\<close> is truthy, and
  \<open>data?.data?.translations\<close> when it is an array, each entry by its
  \<open>translatedText\<close> when that is truthy.
\<close>

record google_data =
  g_error :: bool
  g_translations :: "jsstring option list option"

text \<open>The query of the MyMemory URL: the text before encoding, and the language pair.\<close>

record mymemory_request =
  m_q :: jsstring
  m_langpair :: jsstring

record mymemory_data =
  responseStatus :: "int option"
  responseData_translatedText :: "jsstring option"

text \<open>The requests a run sends out, in order.\<close>

datatype net = GoogleFetch google_request | MyMemoryFetch mymemory_request

text \<open>
  The surroundings of one request to the route: the configured key, the two providers
  as functions of what is sent to them, the successive values of \<open>Date.now()\<close>, and
  the text the engine gives for a value inherited from \<open>Object.prototype\<close> inside a
  template literal.
\<close>

record env =
  GOOGLE_TRANSLATE_API_KEY :: "jsstring option"
  google :: "google_request \<Rightarrow> google_data fetch_result"
  mymemory :: "mymemory_request \<Rightarrow> mymemory_data fetch_result"
  now :: "nat \<Rightarrow> int"
  inherited_text :: "jsstring \<Rightarrow> jsstring"

definition google_note :: jsstring where
  "google_note =
     [0xA, 0xA] @ js ''[Note: Translation truncated to 4,500 characters to meet Google API limits]''"

definition mymemory_note :: jsstring where
  "mymemory_note =
     [0xA, 0xA] @ js ''[Note: Translation truncated to 500 characters due to MyMemory free tier limits]''"

text \<open>
  \<open>translations.map(entry => entry?.translatedText || '').join(' ').trim()\<close>
\<close>

definition joined :: "jsstring option list \<Rightarrow> jsstring" where
  "joined ts = trim (join_space (map (\<lambda>e. case e of None \<Rightarrow> [] | Some t \<Rightarrow> t) ts))"

text \<open>
  \<open>translateWithGoogleAPI\<close>: \<open>Inr None\<close> is the return of \<open>null\<close>, \<open>Inl\<close> an exception
  that leaves the function (it has no \<open>try\<close> of its own).  Logging is left out; the
  \<open>response.text()\<close> read for the log of an error answer is taken to succeed.
\<close>

definition translateWithGoogleAPI ::
  "env \<Rightarrow> jsstring \<Rightarrow> jsstring \<Rightarrow> jsstring \<Rightarrow> (exn + jsstring option) \<times> net list" where
  "translateWithGoogleAPI e text sourceLang targetLang =
     (if \<not> truthy (GOOGLE_TRANSLATE_API_KEY e) then (Inr None, [])
      else
        let googleSource = js_get GOOGLE_LANGUAGE_CODES sourceLang;
            googleTarget = js_get GOOGLE_LANGUAGE_CODES targetLang
        in if \<not> truthy_prop googleSource \<or> \<not> truthy_prop googleTarget then (Inr None, [])
           else
             let textToTranslate = (if length text > 4500 then take 4500 text else text);
                 rq = \<lparr>g_key = the (GOOGLE_TRANSLATE_API_KEY e), g_q = textToTranslate,
                       g_source = googleSource, g_target = googleTarget\<rparr>
             in ((case google e rq of
                   Rejects \<Rightarrow> Inl FetchError
                 | Responds st payload \<Rightarrow>
                     if \<not> ok st then Inr None
                     else (case payload of
                             NotJson \<Rightarrow> Inl SyntaxError
                           | JsonNull \<Rightarrow> Inl TypeError
                           | JsonObject d \<Rightarrow>
                               if g_error d then Inr None
                               else (case g_translations d of
                                       None \<Rightarrow> Inr None
                                     | Some ts \<Rightarrow>
                                         if ts = [] then Inr None
                                         else
                                           let translated = joined ts
                                           in if translated = [] then Inr None
                                              else if length text > 4500
                                                then Inr (Some (translated @ google_note))
                                                else Inr (Some translated)))),
                 [GoogleFetch rq]))"

text \<open>
  \<open>translateWithMyMemory\<close>: the whole body is inside \<open>try\<close>, every exception gives
  \<open>null\<close>.
\<close>

definition translateWithMyMemory ::
  "env \<Rightarrow> jsstring \<Rightarrow> jsstring \<Rightarrow> jsstring \<Rightarrow> jsstring option \<times> net list" where
  "translateWithMyMemory e text sourceLang targetLang =
     (let truncated = (if length text > 500 then take 500 text else text)
      in if \<not> well_formed truncated then (None, [])
         else
           let rq = \<lparr>m_q = truncated, m_langpair = sourceLang @ js ''|'' @ targetLang\<rparr>
           in ((case mymemory e rq of
                 Rejects \<Rightarrow> None
               | Responds st payload \<Rightarrow>
                   if \<not> ok st then None
                   else (case payload of
                           NotJson \<Rightarrow> None
                         | JsonNull \<Rightarrow> None
                         | JsonObject d \<Rightarrow>
                             if responseStatus d = Some 200
                                \<and> truthy (responseData_translatedText d)
                             then
                               let translated = the (responseData_translatedText d)
                               in if length text > 500
                                  then Some (translated @ mymemory_note)
                                  else Some translated
                             else None)),
               [MyMemoryFetch rq]))"

text \<open>
  The JSON body of the route's request and of its response; a field is a string (a
  number, a boolean) or absent.
\<close>

record translate_request =
  r_text :: "jsstring option"
  r_sourceLang :: "jsstring option"
  r_targetLang :: "jsstring option"

record response_body =
  error :: "jsstring option"
  translatedText :: "jsstring option"
  timeMs :: "int option"
  isFallback :: "bool option"
  source :: "jsstring option"
  note_field :: "jsstring option"

definition empty_body :: response_body where
  "empty_body = \<lparr>error = None, translatedText = None, timeMs = None, isFallback = None,
                  source = None, note_field = None\<rparr>"

record response =
  status :: nat
  body :: response_body

definition missing_fields_response :: response where
  "missing_fields_response =
     \<lparr>status = 400,
      body = empty_body\<lparr>error := Some (js ''Missing required fields: text, sourceLang, targetLang'')\<rparr>\<rparr>"

definition server_error_response :: response where
  "server_error_response =
     \<lparr>status = 500,
      body = empty_body\<lparr>error := Some (js ''Failed to process translation''),
                        translatedText := Some (js ''Translation service error. Please try again.'')\<rparr>\<rparr>"

definition noop_response :: "jsstring \<Rightarrow> response" where
  "noop_response text =
     \<lparr>status = 200,
      body = empty_body\<lparr>translatedText := Some text, timeMs := Some 0,
                        source := Some (js ''noop'')\<rparr>\<rparr>"

text \<open>\<open>LANGUAGE_NAMES[targetLang] || targetLang\<close>, as the template literal prints it.\<close>

definition langName :: "env \<Rightarrow> jsstring \<Rightarrow> jsstring" where
  "langName e targetLang =
     (case js_get LANGUAGE_NAMES targetLang of
        Own n \<Rightarrow> if n \<noteq> [] then n else targetLang
      | Inherited k \<Rightarrow> inherited_text e k
      | Undefined \<Rightarrow> targetLang)"

definition unavailable_response :: "env \<Rightarrow> jsstring \<Rightarrow> jsstring \<Rightarrow> response" where
  "unavailable_response e text targetLang =
     \<lparr>status = 503,
      body = empty_body\<lparr>translatedText := Some text, timeMs := Some 0,
                        isFallback := Some True, source := Some (js ''none''),
                        note_field := Some (js ''Translation unavailable for ''
                                            @ langName e targetLang
                                            @ js ''. Returned original text.'')\<rparr>\<rparr>"

text \<open>
  \<open>POST\<close>: the response, and the requests sent to the providers on the way.
  \<open>NextResponse.json(body)\<close> without a status is a 200.
\<close>

definition POST :: "env \<Rightarrow> translate_request json \<Rightarrow> response \<times> net list" where
  "POST e req =
     (case req of
        NotJson \<Rightarrow> (server_error_response, [])
      | JsonNull \<Rightarrow> (server_error_response, [])
      | JsonObject r \<Rightarrow>
          if \<not> truthy (r_text r) \<or> \<not> truthy (r_sourceLang r) \<or> \<not> truthy (r_targetLang r)
          then (missing_fields_response, [])
          else
            let text = the (r_text r);
                sourceLang = the (r_sourceLang r);
                targetLang = the (r_targetLang r)
            in if sourceLang = targetLang then (noop_response text, [])
               else
                 let startTime = now e 0
                 in (case translateWithGoogleAPI e text sourceLang targetLang of
                       (Inl x, sent) \<Rightarrow> (server_error_response, sent)
                     | (Inr googleTranslation, sent) \<Rightarrow>
                         if truthy googleTranslation
                         then (\<lparr>status = 200,
                                body = empty_body\<lparr>translatedText := googleTranslation,
                                                  timeMs := Some (now e 1 - startTime),
                                                  source := Some (js ''google'')\<rparr>\<rparr>,
                               sent)
                         else if sourceLang = js ''en'' \<and> js_in targetLang LANGUAGE_NAMES
                         then
                           let fallbackStart = now e 1
                           in (case translateWithMyMemory e text sourceLang targetLang of
                                 (cloudTranslation, sent') \<Rightarrow>
                                   if truthy cloudTranslation
                                   then (\<lparr>status = 200,
                                          body = empty_body\<lparr>translatedText := cloudTranslation,
                                                            timeMs := Some (now e 2 - fallbackStart),
                                                            source := Some (js ''cloud-fallback''),
                                                            note_field := Some (js ''Google Translate unavailable, using MyMemory free tier fallback.'')\<rparr>\<rparr>,
                                         sent @ sent')
                                   else (unavailable_response e text targetLang, sent @ sent'))
                         else (unavailable_response e text targetLang, sent)))"

section \<open>The translation hook (\<open>useTranslation\<close>)\<close>

record hook_state =
  hook_isTranslating :: bool
  hook_error :: "jsstring option"

text \<open>
  The \<open>try\<close> block of \<open>translate\<close> from the moment \<open>fetch\<close> settles: \<open>Inl\<close> is an
  exception raised inside the block, \<open>Inr\<close> a \<open>return\<close>.
\<close>

definition translate_try :: "response_body fetch_result \<Rightarrow> jsstring \<Rightarrow> exn + jsstring" where
  "translate_try r text =
     (case r of
        Rejects \<Rightarrow> Inl FetchError
      | Responds st payload \<Rightarrow>
          if \<not> ok st then Inl (Error (js ''Translation failed''))
          else (case payload of
                  NotJson \<Rightarrow> Inl SyntaxError
                | JsonNull \<Rightarrow> Inl TypeError
                | JsonObject data \<Rightarrow>
                    if isFallback data = Some True \<and> source data = Some (js ''none'')
                    then Inr text
                    else if truthy (translatedText data) then Inr (the (translatedText data))
                    else Inr text))"

text \<open>\<open>setIsTranslating(true); setError(null)\<close> before the \<open>try\<close>.\<close>

definition translate_begin :: "hook_state \<Rightarrow> hook_state" where
  "translate_begin h = h\<lparr>hook_isTranslating := True, hook_error := None\<rparr>"

text \<open>
  The \<open>try\<close>/\<open>catch\<close>/\<open>finally\<close> once the response is there: what the promise of
  \<open>translate\<close> settles with (\<open>Inl\<close> would be a rejection) and the hook's state.
\<close>

definition translate_settle ::
  "hook_state \<Rightarrow> jsstring \<Rightarrow> response_body fetch_result \<Rightarrow> (exn + jsstring) \<times> hook_state" where
  "translate_settle h text r =
     (case translate_try r text of
        Inr v \<Rightarrow> (Inr v, h\<lparr>hook_isTranslating := False\<rparr>)
      | Inl err \<Rightarrow>
          (Inr text,
           h\<lparr>hook_error := Some (js ''Failed to translate text''), hook_isTranslating := False\<rparr>))"

text \<open>
  \<open>translate\<close> against an endpoint \<open>api\<close>: the settled value, the hook's state and the
  requests sent.
\<close>

definition translate ::
  "(translate_request \<Rightarrow> response_body fetch_result) \<Rightarrow> hook_state \<Rightarrow>
   jsstring \<Rightarrow> jsstring \<Rightarrow> jsstring \<Rightarrow> (exn + jsstring) \<times> hook_state \<times> translate_request list" where
  "translate api h text sourceLang targetLang =
     (if trim text = [] then (Inr [], h, [])
      else
        let rq = \<lparr>r_text = Some text, r_sourceLang = Some sourceLang,
                  r_targetLang = Some targetLang\<rparr>;
            (v, h') = translate_settle (translate_begin h) text (api rq)
        in (v, h', [rq]))"

text \<open>The route as the endpoint the hook talks to.\<close>

definition route :: "env \<Rightarrow> translate_request \<Rightarrow> response_body fetch_result" where
  "route e rq = (let rsp = fst (POST e (JsonObject rq)) in Responds (status rsp) (JsonObject (body rsp)))"

section \<open>The narrative page: automatic retranslation\<close>

definition supportedLanguages :: "(jsstring \<times> jsstring) list" where
  "supportedLanguages = map (\<lambda>(k, v). (js k, js v))
     [(''hi'', ''Hindi''), (''bn'', ''Bengali''), (''ta'', ''Tamil''), (''te'', ''Telugu''),
      (''kn'', ''Kannada''), (''ml'', ''Malayalam''), (''mr'', ''Marathi''),
      (''gu'', ''Gujarati''), (''pa'', ''Punjabi''), (''or'', ''Odia''), (''as'', ''Assamese''),
      (''ur'', ''Urdu''), (''ne'', ''Nepali''), (''sa'', ''Sanskrit''), (''mni'', ''Manipuri'')]"

text \<open>\<open>supportedLanguages.find(l => l.code === targetLang)?.name || targetLang\<close>\<close>

definition language_label :: "jsstring \<Rightarrow> jsstring" where
  "language_label targetLang =
     (case map_of supportedLanguages targetLang of
        Some n \<Rightarrow> if n \<noteq> [] then n else targetLang
      | None \<Rightarrow> targetLang)"

definition rule_line :: jsstring where
  "rule_line = [0xA, 0xA] @ replicate 40 0x2501 @ [0xA]"

definition unavailable_note :: "jsstring \<Rightarrow> jsstring \<Rightarrow> jsstring" where
  "unavailable_note text targetLang =
     text @ rule_line
     @ js ''[Note: Translation service is not available. The narrative above is in English. For full ''
     @ language_label targetLang
     @ js '' translation support, configure the IndicTrans2 service.]''"

definition error_note :: "jsstring \<Rightarrow> jsstring \<Rightarrow> jsstring" where
  "error_note text targetLang =
     text @ rule_line
     @ js ''[Note: Translation service error. The narrative above is in English. For full ''
     @ language_label targetLang
     @ js '' translation support, configure the IndicTrans2 service.]''"

text \<open>
  A call of \<open>fetch('/api/translate')\<close> made by the hook for the page, with the text and
  language of the \<open>handleTranslate\<close> call suspended on it; \<open>c_pending\<close> holds until the
  response has been delivered.
\<close>

record call =
  c_text :: jsstring
  c_targetLang :: jsstring
  c_pending :: bool

text \<open>
  The state of the page that the translation logic touches: the \<open>useState\<close> values,
  the two refs, the hook's state, and the calls made so far (in the order they were
  sent).
\<close>

record page_state =
  generatedText :: jsstring
  originalGeneratedText :: jsstring
  selectedLanguage :: jsstring
  isTranslating :: bool
  translationProgress :: nat
  lastTranslatedLangRef :: jsstring
  hasShownTranslationNoteRef :: bool
  hook :: hook_state
  calls :: "call list"

definition request_of :: "call \<Rightarrow> translate_request" where
  "request_of c = \<lparr>r_text = Some (c_text c), r_sourceLang = Some (js ''en''),
                   r_targetLang = Some (c_targetLang c)\<rparr>"

text \<open>The network requests the page has issued so far.\<close>

definition network_calls :: "page_state \<Rightarrow> translate_request list" where
  "network_calls s = map request_of (calls s)"

text \<open>
  \<open>handleTranslate\<close> after \<open>await translateText(...)\<close>: the value it returns and the
  state (\<open>Inl\<close>: the awaited promise rejected, the \<open>catch\<close> branch).
\<close>

definition handleTranslate_finish ::
  "page_state \<Rightarrow> jsstring \<Rightarrow> jsstring \<Rightarrow> exn + jsstring \<Rightarrow> jsstring \<times> page_state" where
  "handleTranslate_finish s text targetLang awaited =
     (case awaited of
        Inr translated \<Rightarrow>
          (if translated = text \<or> translated = [] then unavailable_note text targetLang
           else translated,
           s\<lparr>translationProgress := 100, isTranslating := False\<rparr>)
      | Inl err \<Rightarrow> (error_note text targetLang, s\<lparr>isTranslating := False\<rparr>))"

text \<open>
  \<open>handleTranslate\<close> up to the point where it waits for the network: \<open>Some v\<close> when it
  returns \<open>v\<close> without a request (the early returns, and the hook's early return of
  \<open>''\<close> on a blank text), \<open>None\<close> when a request has been sent and the call is
  suspended on it.
\<close>

definition handleTranslate_start ::
  "page_state \<Rightarrow> jsstring \<Rightarrow> jsstring \<Rightarrow> jsstring option \<times> page_state" where
  "handleTranslate_start s text targetLang =
     (if text = [] \<or> targetLang = [] \<or> targetLang = js ''en'' then (Some text, s)
      else if js_includes text (js ''[Translation placeholder'')
              \<or> js_includes text (js ''[Note: Translation service'')
      then (Some text, s)
      else
        let s1 = s\<lparr>isTranslating := True, translationProgress := 30\<rparr>
        in if trim text = []
           then (case handleTranslate_finish s1 text targetLang (Inr []) of
                   (v, s2) \<Rightarrow> (Some v, s2))
           else (None,
                 s1\<lparr>hook := translate_begin (hook s1),
                    calls := calls s1 @ [\<lparr>c_text = text, c_targetLang = targetLang,
                                          c_pending = True\<rparr>]\<rparr>))"

text \<open>
  \<open>translateContent\<close> after its \<open>await\<close>: \<open>setGeneratedText(translated)\<close> and the note
  flag.
\<close>

definition show_translation :: "page_state \<Rightarrow> jsstring \<Rightarrow> page_state" where
  "show_translation s translated =
     s\<lparr>generatedText := translated,
       hasShownTranslationNoteRef :=
         (if js_includes translated (js ''[Note: Translation service'') then True
          else hasShownTranslationNoteRef s)\<rparr>"

text \<open>
  The body of the auto-translate \<open>useEffect\<close>.  Its dependency \<open>handleTranslate\<close> is a
  new function on every render (it depends on the array literal
  \<open>supportedLanguages\<close>), so the effect runs after every render.
\<close>

definition auto_translate :: "page_state \<Rightarrow> page_state" where
  "auto_translate s =
     (if originalGeneratedText s \<noteq> [] \<and> selectedLanguage s \<noteq> []
         \<and> selectedLanguage s \<noteq> js ''en''
         \<and> lastTranslatedLangRef s \<noteq> selectedLanguage s
      then
        let s1 = s\<lparr>lastTranslatedLangRef := selectedLanguage s,
                   hasShownTranslationNoteRef := False\<rparr>
        in (case handleTranslate_start s1 (originalGeneratedText s) (selectedLanguage s) of
              (Some translated, s2) \<Rightarrow> show_translation s2 translated
            | (None, s2) \<Rightarrow> s2)
      else if selectedLanguage s = js ''en'' \<and> originalGeneratedText s \<noteq> []
      then s\<lparr>generatedText := originalGeneratedText s,
             lastTranslatedLangRef := js ''en'',
             hasShownTranslationNoteRef := False\<rparr>
      else s)"

text \<open>
  The response to the \<open>k\<close>-th call arrives: the hook settles, \<open>handleTranslate\<close>
  finishes, \<open>translateContent\<close> shows the result.  A response is delivered once.
\<close>

definition deliver :: "page_state \<Rightarrow> nat \<Rightarrow> response_body fetch_result \<Rightarrow> page_state" where
  "deliver s k r =
     (if k < length (calls s) \<and> c_pending (calls s ! k)
      then
        let c = calls s ! k;
            (awaited, h) = translate_settle (hook s) (c_text c) r;
            s1 = s\<lparr>hook := h, calls := (calls s)[k := c\<lparr>c_pending := False\<rparr>]\<rparr>;
            (translated, s2) = handleTranslate_finish s1 (c_text c) (c_targetLang c) awaited
        in show_translation s2 translated
      else s)"

text \<open>
  What happens to the page: the user picks a language, the response to a call arrives,
  or the timer that resets the progress bar fires.  Each is followed by a render and so
  by the effect.  Generating a narrative (\<open>handleGenerate\<close>) is not among the events;
  the statements below hold from an arbitrary state of the page.
\<close>

datatype event =
  SelectLanguage jsstring
| Response nat "response_body fetch_result"
| ProgressTimeout

fun handle :: "page_state \<Rightarrow> event \<Rightarrow> page_state" where
  "handle s (SelectLanguage l) = s\<lparr>selectedLanguage := l\<rparr>"
| "handle s (Response k r) = deliver s k r"
| "handle s ProgressTimeout = s\<lparr>translationProgress := 0\<rparr>"

definition step :: "page_state \<Rightarrow> event \<Rightarrow> page_state" where
  "step s ev = auto_translate (handle s ev)"

definition run :: "page_state \<Rightarrow> event list \<Rightarrow> page_state" where
  "run s evs = foldl step s evs"

section \<open>Crisis alerts: the proxy route and the poller\<close>

text \<open>What is read of the body of an alerts response: \<open>alerts\<close> when it is an array.\<close>

record 'a alerts_body =
  b_alerts :: "'a list option"
  b_error :: "jsstring option"

text \<open>
  \<open>GET\<close> of \<open>/api/alerts\<close>, given what the fetch of the monitoring service gives and
  the message of the exception caught, if any (\<open>err?.message\<close>): the status and the
  body of the answer.  The \<open>res.text()\<close> read for the log of an error answer is taken to
  succeed.
\<close>

definition alerts_GET ::
  "jsstring option \<Rightarrow> 'a alerts_body fetch_result \<Rightarrow> nat \<times> 'a alerts_body json" where
  "alerts_GET message upstream =
     (let failed = (500, JsonObject \<lparr>b_alerts = Some [],
                      b_error = Some (if truthy message then the message
                                      else js ''Internal error'')\<rparr>)
      in case upstream of
           Rejects \<Rightarrow> failed
         | Responds st payload \<Rightarrow>
             if \<not> ok st
             then (502, JsonObject \<lparr>b_alerts = Some [], b_error = Some (js ''Bad gateway'')\<rparr>)
             else (case payload of
                     NotJson \<Rightarrow> failed
                   | data \<Rightarrow> (200, data)))"

record 'a poller_state =
  alerts :: "'a list"
  loadingAlerts :: bool

text \<open>The \<open>try\<close> block of \<open>fetchAlerts\<close>: \<open>data.alerts\<close>, or the exception raised.\<close>

definition fetchAlerts_try :: "'a alerts_body fetch_result \<Rightarrow> exn + 'a list option" where
  "fetchAlerts_try r =
     (case r of
        Rejects \<Rightarrow> Inl FetchError
      | Responds st payload \<Rightarrow>
          if \<not> ok st then Inl (Error (js ''Failed to fetch alerts''))
          else (case payload of
                  NotJson \<Rightarrow> Inl SyntaxError
                | JsonNull \<Rightarrow> Inl TypeError
                | JsonObject data \<Rightarrow> Inr (b_alerts data)))"

text \<open>
  One run of \<open>fetchAlerts\<close>: \<open>mounted\<close> is the flag of the effect's closure at the time
  the response is handled, \<open>Inl\<close> would be an exception leaving the function.
\<close>

definition fetchAlerts ::
  "bool \<Rightarrow> 'a alerts_body fetch_result \<Rightarrow> 'a poller_state \<Rightarrow> (exn + unit) \<times> 'a poller_state" where
  "fetchAlerts mounted r s =
     (let s1 = s\<lparr>loadingAlerts := True\<rparr>;
          s2 = (case fetchAlerts_try r of
                  Inr (Some new) \<Rightarrow> if mounted \<and> length new > 0 then s1\<lparr>alerts := new\<rparr> else s1
                | Inr None \<Rightarrow> s1
                | Inl err \<Rightarrow> s1)
      in (Inr (), if mounted then s2\<lparr>loadingAlerts := False\<rparr> else s2))"

text \<open>The poller against the proxy route.\<close>

definition poll_via_proxy ::
  "bool \<Rightarrow> jsstring option \<Rightarrow> 'a alerts_body fetch_result \<Rightarrow> 'a poller_state \<Rightarrow>
   (exn + unit) \<times> 'a poller_state" where
  "poll_via_proxy mounted message upstream s =
     (case alerts_GET message upstream of
        (st, payload) \<Rightarrow> fetchAlerts mounted (Responds st payload) s)"

section \<open>Notions used in the statements\<close>

text \<open>A provider's result with the truncation note appended (\<open>null\<close> stays \<open>null\<close>).\<close>

definition with_note :: "jsstring \<Rightarrow> jsstring option \<Rightarrow> jsstring option" where
  "with_note n r = map_option (\<lambda>t. t @ n) r"

text \<open>
  The ways a request fails for its caller: the fetch rejects, the status is not 2xx, or
  the body is not JSON (or is \<open>null\<close>, whose fields cannot be read).
\<close>

definition failure :: "'a fetch_result \<Rightarrow> bool" where
  "failure r =
     (case r of
        Rejects \<Rightarrow> True
      | Responds st payload \<Rightarrow> (case payload of JsonObject d \<Rightarrow> \<not> ok st | _ \<Rightarrow> True))"

text \<open>
  A text that \<open>handleTranslate\<close> passes on and the hook sends: not empty, without the
  two placeholder markers, not blank.
\<close>

definition goes_to_network :: "jsstring \<Rightarrow> bool" where
  "goes_to_network text =
     (text \<noteq> [] \<and> \<not> js_includes text (js ''[Translation placeholder'')
      \<and> \<not> js_includes text (js ''[Note: Translation service'') \<and> trim text \<noteq> [])"

text \<open>The condition of the effect's first branch.\<close>

definition guard :: "page_state \<Rightarrow> bool" where
  "guard s =
     (originalGeneratedText s \<noteq> [] \<and> selectedLanguage s \<noteq> []
      \<and> selectedLanguage s \<noteq> js ''en''
      \<and> lastTranslatedLangRef s \<noteq> selectedLanguage s)"

text \<open>
  What the page shows for a call with \<open>text\<close> and \<open>targetLang\<close> once the response \<open>r\<close>
  is there: the hook's value, passed through the end of \<open>handleTranslate\<close>.
\<close>

definition rendering :: "jsstring \<Rightarrow> jsstring \<Rightarrow> response_body fetch_result \<Rightarrow> jsstring" where
  "rendering text targetLang r =
     (let v = (case translate_try r text of Inr v \<Rightarrow> v | Inl err \<Rightarrow> text)
      in if v = text \<or> v = [] then unavailable_note text targetLang else v)"

section \<open>Example inputs\<close>

text \<open>
  An environment whose providers answer every request with the text in angle brackets;
  one whose providers cannot be reached; one without a Google key.
\<close>

definition echo_env :: env where
  "echo_env =
     \<lparr>GOOGLE_TRANSLATE_API_KEY = Some (js ''key''),
      google = (\<lambda>rq. Responds 200 (JsonObject
                  \<lparr>g_error = False,
                   g_translations = Some [Some (js ''<'' @ g_q rq @ js ''>'')]\<rparr>)),
      mymemory = (\<lambda>rq. Responds 200 (JsonObject
                    \<lparr>responseStatus = Some 200,
                     responseData_translatedText = Some (js ''<'' @ m_q rq @ js ''>'')\<rparr>)),
      now = (\<lambda>n. 1000 + 7 * int n),
      inherited_text = (\<lambda>k. js ''function '' @ k @ js ''() { [native code] }'')\<rparr>"

definition down_env :: env where
  "down_env = echo_env\<lparr>google := (\<lambda>rq. Rejects), mymemory := (\<lambda>rq. Rejects)\<rparr>"

definition unconfigured_env :: env where
  "unconfigured_env = echo_env\<lparr>GOOGLE_TRANSLATE_API_KEY := None\<rparr>"

definition request :: "string \<Rightarrow> string \<Rightarrow> string \<Rightarrow> translate_request" where
  "request t s l = \<lparr>r_text = Some (js t), r_sourceLang = Some (js s), r_targetLang = Some (js l)\<rparr>"

text \<open>A 200 response of the route that carries a translation.\<close>

definition translated_as :: "string \<Rightarrow> response_body fetch_result" where
  "translated_as t =
     Responds 200 (JsonObject (empty_body\<lparr>translatedText := Some (js t), timeMs := Some 12,
                                          source := Some (js ''google'')\<rparr>))"

text \<open>The page right after a narrative has been generated with no language chosen.\<close>

definition fresh_page :: "string \<Rightarrow> page_state" where
  "fresh_page t =
     \<lparr>generatedText = js t, originalGeneratedText = js t, selectedLanguage = [],
      isTranslating = False, translationProgress = 0, lastTranslatedLangRef = js ''en'',
      hasShownTranslationNoteRef = False,
      hook = \<lparr>hook_isTranslating = False, hook_error = None\<rparr>, calls = []\<rparr>"

text \<open>The page showing a Hindi translation of \<open>Hello\<close>.\<close>

definition hindi_page :: page_state where
  "hindi_page =
     \<lparr>generatedText = js ''namaste'', originalGeneratedText = js ''Hello'',
      selectedLanguage = js ''hi'', isTranslating = False, translationProgress = 100,
      lastTranslatedLangRef = js ''hi'', hasShownTranslationNoteRef = False,
      hook = \<lparr>hook_isTranslating = False, hook_error = None\<rparr>,
      calls = [\<lparr>c_text = js ''Hello'', c_targetLang = js ''hi'', c_pending = False\<rparr>]\<rparr>"

definition idle_poller :: "nat poller_state" where
  "idle_poller = \<lparr>alerts = [1, 2], loadingAlerts = False\<rparr>"

section \<open>Facts about strings and the examples\<close>

lemmas route_defs =
  POST_def translateWithGoogleAPI_def translateWithMyMemory_def js_get_def js_in_def
  GOOGLE_LANGUAGE_CODES_def LANGUAGE_NAMES_def object_prototype_names_def Let_def ok_def

lemmas example_defs = request_def echo_env_def down_env_def unconfigured_env_def js_def

lemmas page_defs =
  step_def auto_translate_def handleTranslate_start_def handleTranslate_finish_def
  show_translation_def deliver_def translate_settle_def translate_begin_def
  translate_try_def Let_def ok_def

lemma en_nonempty: "js ''en'' \<noteq> []"
  by (simp add: js_def)

lemma well_formed_plain:
  "(\<forall>u\<in>set s. \<not> is_high u \<and> \<not> is_low u) \<Longrightarrow> well_formed s"
  by (induction s rule: well_formed.induct) auto

lemma a_is_plain: "\<not> is_high 0x61 \<and> \<not> is_low 0x61"
  by (simp add: is_high_def is_low_def)

lemma hello_goes_to_network: "goes_to_network (js ''Hello'')"
  by (simp add: goes_to_network_def js_def trim_def is_space_def)

section \<open>The translate route\<close>

subsection \<open>The short circuit on equal languages\<close>

text \<open>
  Claim C4, as amended.  For every non-empty text and every non-empty language code, a
  request whose source and target language are equal is answered at once: status 200,
  \<open>translatedText\<close> the text unchanged, \<open>source\<close> \<open>noop\<close>, \<open>timeMs\<close> 0, and nothing is
  sent to a provider.
\<close>

theorem noop_short_circuit:
  assumes "text \<noteq> []" and "lang \<noteq> []"
  shows "POST e (JsonObject \<lparr>r_text = Some text, r_sourceLang = Some lang,
                              r_targetLang = Some lang\<rparr>)
         = (\<lparr>status = 200,
             body = \<lparr>error = None, translatedText = Some text, timeMs = Some 0,
                     isFallback = None, source = Some (js ''noop''), note_field = None\<rparr>\<rparr>,
            [])"
  using assms by (simp add: POST_def noop_response_def empty_body_def)

text \<open>The scenario of the specification: \<open>Hello world\<close> from English to English.\<close>

theorem noop_short_circuit_witness:
  "js ''Hello world'' \<noteq> [] \<and> js ''en'' \<noteq> []
   \<and> POST down_env (JsonObject (request ''Hello world'' ''en'' ''en''))
       = (\<lparr>status = 200,
           body = \<lparr>error = None, translatedText = Some (js ''Hello world''), timeMs = Some 0,
                   isFallback = None, source = Some (js ''noop''), note_field = None\<rparr>\<rparr>,
          [])"
proof -
  have t: "js ''Hello world'' \<noteq> []" and l: "js ''en'' \<noteq> []"
    by (simp_all add: js_def)
  from noop_short_circuit [OF t l, of down_env] t l show ?thesis
    by (simp add: request_def)
qed

text \<open>
  Claim C4 as stated, for every text, fails at the empty text: the check of the
  required fields comes first and answers 400 without a \<open>translatedText\<close>.
\<close>

theorem noop_empty_text_counterexample:
  "status (fst (POST echo_env (JsonObject (request [] ''en'' ''en'')))) = 400
   \<and> translatedText (body (fst (POST echo_env (JsonObject (request [] ''en'' ''en''))))) = None
   \<and> source (body (fst (POST echo_env (JsonObject (request [] ''en'' ''en''))))) = None"
  by (simp add: POST_def request_def js_def missing_fields_response_def empty_body_def)

subsection \<open>When no provider delivers\<close>

text \<open>
  When Google returns \<open>null\<close> and MyMemory is not tried or returns \<open>null\<close>, the answer is
  the 503 response with the text unchanged and one note that names the language.  The
  text of the answer is the text of the request, so asking again gives the same answer.
\<close>

lemma google_null_POST:
  assumes "text \<noteq> []" "sourceLang \<noteq> []" "targetLang \<noteq> []" "sourceLang \<noteq> targetLang"
    and "translateWithGoogleAPI e text sourceLang targetLang = (Inr None, sent)"
    and "\<not> (sourceLang = js ''en'' \<and> js_in targetLang LANGUAGE_NAMES)
         \<or> fst (translateWithMyMemory e text sourceLang targetLang) = None"
  shows "fst (POST e (JsonObject \<lparr>r_text = Some text, r_sourceLang = Some sourceLang,
                                   r_targetLang = Some targetLang\<rparr>))
         = \<lparr>status = 503,
            body = \<lparr>error = None, translatedText = Some text, timeMs = Some 0,
                    isFallback = Some True, source = Some (js ''none''),
                    note_field = Some (js ''Translation unavailable for ''
                                        @ langName e targetLang
                                        @ js ''. Returned original text.'')\<rparr>\<rparr>"
  using assms
  by (auto simp add: POST_def Let_def unavailable_response_def empty_body_def
      split: prod.splits option.splits)

text \<open>
  Claim C3 at two failing inputs: Google is configured and its fetch rejects (the network
  is down, or the eight seconds of the abort signal pass); once from Hindi to Tamil,
  where MyMemory is not eligible, once from English to Hindi with MyMemory down as
  well.  \<open>translateWithGoogleAPI\<close> has no \<open>try\<close> of its own, the exception reaches the
  \<open>catch\<close> of \<open>POST\<close>, and the answer is the 500 response; MyMemory is not tried.
\<close>

theorem google_rejection_is_server_error:
  "POST down_env (JsonObject (request ''Hello'' ''hi'' ''ta''))
   = (server_error_response,
      [GoogleFetch \<lparr>g_key = js ''key'', g_q = js ''Hello'', g_source = Own (js ''hi''),
                    g_target = Own (js ''ta'')\<rparr>])
   \<and> POST down_env (JsonObject (request ''Hello'' ''en'' ''hi''))
     = (server_error_response,
        [GoogleFetch \<lparr>g_key = js ''key'', g_q = js ''Hello'', g_source = Own (js ''en''),
                      g_target = Own (js ''hi'')\<rparr>])"
  by (simp add: route_defs example_defs)

theorem google_rejection_is_server_error_witness:
  "status (fst (POST down_env (JsonObject (request ''Hello'' ''hi'' ''ta'')))) = 500
   \<and> translatedText (body (fst (POST down_env (JsonObject (request ''Hello'' ''hi'' ''ta'')))))
       = Some (js ''Translation service error. Please try again.'')
   \<and> isFallback (body (fst (POST down_env (JsonObject (request ''Hello'' ''hi'' ''ta''))))) = None
   \<and> source (body (fst (POST down_env (JsonObject (request ''Hello'' ''hi'' ''ta''))))) = None
   \<and> note_field (body (fst (POST down_env (JsonObject (request ''Hello'' ''hi'' ''ta''))))) = None
   \<and> status (fst (POST down_env (JsonObject (request ''Hello'' ''en'' ''hi'')))) = 500"
  using google_rejection_is_server_error
  by (simp add: server_error_response_def empty_body_def)

subsection \<open>When MyMemory is tried\<close>

text \<open>
  A request goes to MyMemory only after Google has returned \<open>null\<close>, with \<open>en\<close> as the
  source language and a target language that passes \<open>targetLang in LANGUAGE_NAMES\<close>;
  for a name that is not inherited from \<open>Object.prototype\<close> that test is membership
  among the keys of the table.
\<close>

lemma js_in_own:
  assumes "k \<notin> set object_prototype_names"
  shows "js_in k tbl = (k \<in> fst ` set tbl)"
proof (cases "map_of tbl k")
  case None
  then have "k \<notin> fst ` set tbl"
    by (simp add: map_of_eq_None_iff)
  with None assms show ?thesis
    by (simp add: js_in_def js_get_def)
next
  case (Some v)
  then have "k \<in> fst ` set tbl"
    by (metis map_of_eq_None_iff option.distinct(1))
  with Some show ?thesis
    by (simp add: js_in_def js_get_def)
qed

lemma google_result_nonempty:
  "translateWithGoogleAPI e text s t \<noteq> (Inr (Some []), sent)"
  by (auto simp add: translateWithGoogleAPI_def Let_def google_note_def
      split: fetch_result.splits json.splits option.splits if_splits)

lemma mymemory_guard:
  assumes "MyMemoryFetch rq \<in> set (snd (POST e (JsonObject r)))"
  shows "r_sourceLang r = Some (js ''en'')
         \<and> js_in (the (r_targetLang r)) LANGUAGE_NAMES
         \<and> fst (translateWithGoogleAPI e (the (r_text r)) (js ''en'') (the (r_targetLang r)))
           = Inr None"
proof -
  have g: "MyMemoryFetch rq \<notin> set (snd (translateWithGoogleAPI e t s l))" for t s l
    by (simp add: translateWithGoogleAPI_def Let_def)
  obtain res sent where tg:
    "translateWithGoogleAPI e (the (r_text r)) (the (r_sourceLang r)) (the (r_targetLang r))
     = (res, sent)"
    by (cases "translateWithGoogleAPI e (the (r_text r)) (the (r_sourceLang r))
                 (the (r_targetLang r))") blast
  from g [of "the (r_text r)" "the (r_sourceLang r)" "the (r_targetLang r)"] tg
  have ns: "MyMemoryFetch rq \<notin> set sent"
    by simp
  from tg have ne: "res \<noteq> Inr (Some [])"
    using google_result_nonempty by blast
  show ?thesis
  proof (cases res)
    case (Inl x)
    with assms tg ns show ?thesis
      by (auto simp add: POST_def Let_def split: if_splits)
  next
    case (Inr v)
    with assms tg ns ne show ?thesis
      by (cases v; cases "r_sourceLang r")
         (auto simp add: POST_def Let_def split: if_splits prod.splits)
  qed
qed

text \<open>
  Claim C8 at a failing input: no Google key, source \<open>en\<close>, target \<open>toString\<close>.  The
  name is no key of \<open>LANGUAGE_NAMES\<close>, but \<open>'toString' in LANGUAGE_NAMES\<close> holds, since
  the table inherits it from \<open>Object.prototype\<close>; MyMemory is asked for \<open>en|toString\<close>.
\<close>

theorem mymemory_for_inherited_name:
  "snd (POST unconfigured_env (JsonObject (request ''Hello'' ''en'' ''toString'')))
   = [MyMemoryFetch \<lparr>m_q = js ''Hello'', m_langpair = js ''en|toString''\<rparr>]
   \<and> map_of LANGUAGE_NAMES (js ''toString'') = None"
  by (simp add: route_defs example_defs is_high_def is_low_def)

theorem mymemory_for_inherited_name_witness:
  "MyMemoryFetch \<lparr>m_q = js ''Hello'', m_langpair = js ''en|toString''\<rparr>
     \<in> set (snd (POST unconfigured_env (JsonObject (request ''Hello'' ''en'' ''toString''))))
   \<and> js ''toString'' \<notin> fst ` set LANGUAGE_NAMES"
  using mymemory_for_inherited_name
  by (simp add: map_of_eq_None_iff)

subsection \<open>Truncation\<close>

lemma google_truncated_result:
  "4500 < length text \<Longrightarrow>
   fst (translateWithGoogleAPI e text s t)
   = map_sum id (with_note google_note) (fst (translateWithGoogleAPI e (take 4500 text) s t))"
  by (simp add: translateWithGoogleAPI_def Let_def with_note_def
      split: fetch_result.splits json.splits option.splits)

lemma google_truncated_requests:
  "4500 < length text \<Longrightarrow>
   snd (translateWithGoogleAPI e text s t) = snd (translateWithGoogleAPI e (take 4500 text) s t)"
  by (simp add: translateWithGoogleAPI_def Let_def)

lemma google_sends_prefix:
  "GoogleFetch rq \<in> set (snd (translateWithGoogleAPI e text s t)) \<Longrightarrow> 4500 < length text \<Longrightarrow>
   g_q rq = take 4500 text"
  by (auto simp add: translateWithGoogleAPI_def Let_def split: if_splits)

lemma mymemory_truncated:
  "500 < length text \<Longrightarrow>
   translateWithMyMemory e text s t
   = (with_note mymemory_note (fst (translateWithMyMemory e (take 500 text) s t)),
      snd (translateWithMyMemory e (take 500 text) s t))"
  by (simp add: translateWithMyMemory_def Let_def with_note_def
      split: fetch_result.splits json.splits option.splits)

lemma mymemory_sends_prefix:
  "MyMemoryFetch rq \<in> set (snd (translateWithMyMemory e text s t)) \<Longrightarrow> 500 < length text \<Longrightarrow>
   m_q rq = take 500 text"
  by (auto simp add: translateWithMyMemory_def Let_def split: if_splits)

lemma note_texts:
  "js_includes google_note (js ''truncated to 4,500 characters'')"
  "js_includes mymemory_note (js ''truncated to 500 characters'')"
  by (simp_all add: google_note_def mymemory_note_def js_def)

text \<open>
  Claim C6.  A text of more than 4500 code units is cut to its first 4500 before it goes
  to Google: every request sent carries exactly that prefix, the requests and the result
  are those of the prefix alone, and a translation that comes back carries the note
  \<open>truncated to 4,500 characters\<close> at its end.  The same holds for MyMemory with 500
  and its note \<open>truncated to 500 characters\<close>.
\<close>

theorem truncation:
  "(4500 < length text \<longrightarrow>
      (\<forall>rq. GoogleFetch rq \<in> set (snd (translateWithGoogleAPI e text s t))
            \<longrightarrow> g_q rq = take 4500 text \<and> length (g_q rq) = 4500)
    \<and> snd (translateWithGoogleAPI e text s t)
      = snd (translateWithGoogleAPI e (take 4500 text) s t)
    \<and> fst (translateWithGoogleAPI e text s t)
      = map_sum id (with_note google_note)
          (fst (translateWithGoogleAPI e (take 4500 text) s t)))
   \<and> (500 < length text \<longrightarrow>
      (\<forall>rq. MyMemoryFetch rq \<in> set (snd (translateWithMyMemory e text s t))
            \<longrightarrow> m_q rq = take 500 text \<and> length (m_q rq) = 500)
    \<and> snd (translateWithMyMemory e text s t)
      = snd (translateWithMyMemory e (take 500 text) s t)
    \<and> fst (translateWithMyMemory e text s t)
      = with_note mymemory_note (fst (translateWithMyMemory e (take 500 text) s t)))
   \<and> js_includes google_note (js ''truncated to 4,500 characters'')
   \<and> js_includes mymemory_note (js ''truncated to 500 characters'')"
proof (intro conjI impI allI)
  fix rq
  assume "4500 < length text"
    and "GoogleFetch rq \<in> set (snd (translateWithGoogleAPI e text s t))"
  then show "g_q rq = take 4500 text" and "length (g_q rq) = 4500"
    using google_sends_prefix [of rq e "text" s t] by simp_all
next
  fix rq
  assume "500 < length text"
    and "MyMemoryFetch rq \<in> set (snd (translateWithMyMemory e text s t))"
  then show "m_q rq = take 500 text" and "length (m_q rq) = 500"
    using mymemory_sends_prefix [of rq e "text" s t] by simp_all
qed (simp_all add: google_truncated_result google_truncated_requests mymemory_truncated
      note_texts)

text \<open>A text of 4501 letters \<open>a\<close>, from English to Hindi, with providers that answer.\<close>

theorem truncation_witness:
  "4500 < length (replicate 4501 (0x61 :: 16 word))
   \<and> 500 < length (replicate 4501 (0x61 :: 16 word))
   \<and> translateWithGoogleAPI echo_env (replicate 4501 0x61) (js ''en'') (js ''hi'')
     = (Inr (Some (js ''<'' @ replicate 4500 0x61 @ js ''>'' @ google_note)),
        [GoogleFetch \<lparr>g_key = js ''key'', g_q = replicate 4500 0x61,
                      g_source = Own (js ''en''), g_target = Own (js ''hi'')\<rparr>])
   \<and> translateWithMyMemory echo_env (replicate 4501 0x61) (js ''en'') (js ''hi'')
     = (Some (js ''<'' @ replicate 500 0x61 @ js ''>'' @ mymemory_note),
        [MyMemoryFetch \<lparr>m_q = replicate 500 0x61, m_langpair = js ''en|hi''\<rparr>])"
proof -
  have wf: "well_formed (replicate 500 (0x61 :: 16 word))"
    by (rule well_formed_plain) (simp add: a_is_plain)
  have g: "translateWithGoogleAPI echo_env (replicate 4500 0x61) (js ''en'') (js ''hi'')
           = (Inr (Some (js ''<'' @ replicate 4500 0x61 @ js ''>'')),
              [GoogleFetch \<lparr>g_key = js ''key'', g_q = replicate 4500 0x61,
                            g_source = Own (js ''en''), g_target = Own (js ''hi'')\<rparr>])"
    by (simp add: route_defs example_defs joined_def trim_def is_space_def)
  have m: "translateWithMyMemory echo_env (replicate 500 0x61) (js ''en'') (js ''hi'')
           = (Some (js ''<'' @ replicate 500 0x61 @ js ''>''),
              [MyMemoryFetch \<lparr>m_q = replicate 500 0x61, m_langpair = js ''en|hi''\<rparr>])"
    using wf by (simp add: route_defs example_defs)
  from truncation [of "replicate 4501 0x61" echo_env "js ''en''" "js ''hi''"] g m
  show ?thesis
    by (simp add: prod_eq_iff with_note_def)
qed

section \<open>The translation hook\<close>

lemma failure_try: "failure r \<Longrightarrow> \<exists>x. translate_try r text = Inl x"
  by (auto simp add: failure_def translate_try_def split: fetch_result.splits json.splits)

lemma translate_resolves: "\<exists>v h' sent. translate api h text s t = (Inr v, h', sent)"
  by (simp add: translate_def translate_settle_def Let_def split: sum.splits prod.splits)

lemma translate_clears_busy:
  "trim text \<noteq> [] \<Longrightarrow> \<not> hook_isTranslating (fst (snd (translate api h text s t)))"
  by (simp add: translate_def translate_settle_def Let_def split: sum.splits prod.splits)

lemma translate_on_failure:
  assumes "trim text \<noteq> []"
    and "failure (api \<lparr>r_text = Some text, r_sourceLang = Some s, r_targetLang = Some t\<rparr>)"
  shows "translate api h text s t
         = (Inr text,
            h\<lparr>hook_isTranslating := False,
              hook_error := Some (js ''Failed to translate text'')\<rparr>,
            [\<lparr>r_text = Some text, r_sourceLang = Some s, r_targetLang = Some t\<rparr>])"
  using assms
    failure_try [of "api \<lparr>r_text = Some text, r_sourceLang = Some s, r_targetLang = Some t\<rparr>"
      "text"]
  by (auto simp add: translate_def translate_settle_def translate_begin_def Let_def
      split: sum.splits prod.splits)

text \<open>
  Claim C7.  The promise of \<open>translate\<close> never rejects: whatever the endpoint does, it
  settles with a value.  Once the call has passed the check for a blank text (which
  returns the empty string at once, with no request and no change of state), the busy
  flag is off when it settles; and when its request fails (the fetch rejects, the status
  is not 2xx, the body is not JSON or is \<open>null\<close>) it settles with the text it was given,
  with the error set.
\<close>

theorem translate_never_rejects:
  "(\<exists>v h' sent. translate api h text s t = (Inr v, h', sent))
   \<and> (trim text \<noteq> [] \<longrightarrow> \<not> hook_isTranslating (fst (snd (translate api h text s t))))
   \<and> (trim text \<noteq> []
      \<and> failure (api \<lparr>r_text = Some text, r_sourceLang = Some s, r_targetLang = Some t\<rparr>)
      \<longrightarrow> translate api h text s t
          = (Inr text,
             h\<lparr>hook_isTranslating := False,
               hook_error := Some (js ''Failed to translate text'')\<rparr>,
             [\<lparr>r_text = Some text, r_sourceLang = Some s, r_targetLang = Some t\<rparr>]))"
  using translate_resolves [of api h "text" s t] translate_clears_busy [of "text" api h s t]
    translate_on_failure [of "text" api s t h]
  by blast

text \<open>A request that the network drops, with an earlier error still set.\<close>

theorem translate_never_rejects_witness:
  "trim (js ''Hello'') \<noteq> [] \<and> failure (Rejects :: response_body fetch_result)
   \<and> translate (\<lambda>rq. Rejects) \<lparr>hook_isTranslating = False, hook_error = Some (js ''old'')\<rparr>
       (js ''Hello'') (js ''en'') (js ''hi'')
     = (Inr (js ''Hello''),
        \<lparr>hook_isTranslating = False, hook_error = Some (js ''Failed to translate text'')\<rparr>,
        [request ''Hello'' ''en'' ''hi''])"
proof -
  have b: "trim (js ''Hello'') \<noteq> []"
    by (simp add: trim_def is_space_def js_def)
  have f: "failure (Rejects :: response_body fetch_result)"
    by (simp add: failure_def)
  from translate_never_rejects [of "\<lambda>rq. Rejects"
      "\<lparr>hook_isTranslating = False, hook_error = Some (js ''old'')\<rparr>"
      "js ''Hello''" "js ''en''" "js ''hi''"] b f
  show ?thesis
    by (simp add: request_def)
qed

subsection \<open>The hook against the route\<close>

lemma not_ok_try:
  "\<not> ok st \<Longrightarrow> translate_try (Responds st p) text = Inl (Error (js ''Translation failed''))"
  by (simp add: translate_try_def)

lemma POST_fallback_status:
  "isFallback (body (fst (POST e rq))) = Some True \<Longrightarrow>
   status (fst (POST e rq)) = 503 \<and> source (body (fst (POST e rq))) = Some (js ''none'')"
  by (auto simp add: POST_def Let_def server_error_response_def missing_fields_response_def
      noop_response_def unavailable_response_def empty_body_def
      split: json.splits if_splits prod.splits sum.splits)

text \<open>
  Claim C10.  Whenever the route answers with its degraded body (\<open>isFallback\<close> true,
  which it sends with \<open>source\<close> \<open>none\<close> only), the status is 503: the hook then throws
  on \<open>!response.ok\<close>, its \<open>catch\<close> sets the error, and it settles with the text it was
  given.  For every response that is not 2xx the \<open>try\<close> block raises before the body is
  read, whatever the body holds, so the test of \<open>isFallback\<close> and \<open>source\<close> is reached
  by 2xx responses only.
\<close>

theorem degraded_response_takes_error_path:
  assumes "trim text \<noteq> []"
    and "isFallback (body (fst (POST e (JsonObject
           \<lparr>r_text = Some text, r_sourceLang = Some s, r_targetLang = Some t\<rparr>)))) = Some True"
  shows "status (fst (POST e (JsonObject
           \<lparr>r_text = Some text, r_sourceLang = Some s, r_targetLang = Some t\<rparr>))) = 503
         \<and> source (body (fst (POST e (JsonObject
             \<lparr>r_text = Some text, r_sourceLang = Some s, r_targetLang = Some t\<rparr>))))
           = Some (js ''none'')
         \<and> translate (route e) h text s t
           = (Inr text,
              h\<lparr>hook_isTranslating := False,
                hook_error := Some (js ''Failed to translate text'')\<rparr>,
              [\<lparr>r_text = Some text, r_sourceLang = Some s, r_targetLang = Some t\<rparr>])
         \<and> (\<forall>st p. \<not> ok st \<longrightarrow>
               translate_try (Responds st p) text = Inl (Error (js ''Translation failed'')))"
proof -
  let ?rq = "\<lparr>r_text = Some text, r_sourceLang = Some s, r_targetLang = Some t\<rparr>"
  from assms(2) have st: "status (fst (POST e (JsonObject ?rq))) = 503"
    and src: "source (body (fst (POST e (JsonObject ?rq)))) = Some (js ''none'')"
    by (simp_all add: POST_fallback_status)
  from st have "failure (route e ?rq)"
    by (simp add: route_def failure_def ok_def Let_def)
  with assms(1) have "translate (route e) h text s t
      = (Inr text,
         h\<lparr>hook_isTranslating := False, hook_error := Some (js ''Failed to translate text'')\<rparr>,
         [?rq])"
    by (rule translate_on_failure)
  with st src show ?thesis
    by (simp add: not_ok_try)
qed

text \<open>Hindi to Tamil without a Google key: no provider is tried.\<close>

theorem degraded_response_takes_error_path_witness:
  "trim (js ''Hello'') \<noteq> []
   \<and> isFallback (body (fst (POST unconfigured_env (JsonObject (request ''Hello'' ''hi'' ''ta'')))))
     = Some True
   \<and> source (body (fst (POST unconfigured_env (JsonObject (request ''Hello'' ''hi'' ''ta'')))))
     = Some (js ''none'')
   \<and> status (fst (POST unconfigured_env (JsonObject (request ''Hello'' ''hi'' ''ta'')))) = 503
   \<and> translate (route unconfigured_env) \<lparr>hook_isTranslating = False, hook_error = None\<rparr>
       (js ''Hello'') (js ''hi'') (js ''ta'')
     = (Inr (js ''Hello''),
        \<lparr>hook_isTranslating = False, hook_error = Some (js ''Failed to translate text'')\<rparr>,
        [request ''Hello'' ''hi'' ''ta''])"
proof -
  have b: "trim (js ''Hello'') \<noteq> []"
    by (simp add: trim_def is_space_def js_def)
  have r: "fst (POST unconfigured_env (JsonObject (request ''Hello'' ''hi'' ''ta'')))
           = unavailable_response unconfigured_env (js ''Hello'') (js ''ta'')"
    by (simp add: route_defs example_defs)
  then have f: "isFallback (body (fst (POST unconfigured_env (JsonObject
                  \<lparr>r_text = Some (js ''Hello''), r_sourceLang = Some (js ''hi''),
                   r_targetLang = Some (js ''ta'')\<rparr>)))) = Some True"
    by (simp add: request_def unavailable_response_def empty_body_def)
  from degraded_response_takes_error_path [OF b f,
      of "\<lparr>hook_isTranslating = False, hook_error = None\<rparr>"] b r
  show ?thesis
    by (simp add: request_def unavailable_response_def empty_body_def)
qed

section \<open>The alert poller\<close>

lemma fetchAlerts_returns: "fst (fetchAlerts mounted r s) = Inr ()"
  by (simp add: fetchAlerts_def Let_def)

lemma fetchAlerts_replaces_only_on_success:
  "alerts (snd (fetchAlerts mounted r s)) \<noteq> alerts s \<Longrightarrow>
   \<exists>st d. r = Responds st (JsonObject d) \<and> ok st \<and> mounted
          \<and> b_alerts d = Some (alerts (snd (fetchAlerts mounted r s)))
          \<and> alerts (snd (fetchAlerts mounted r s)) \<noteq> []"
  by (auto simp add: fetchAlerts_def fetchAlerts_try_def Let_def
      split: fetch_result.splits json.splits option.splits if_splits sum.splits)

lemma fetchAlerts_replaces_on_success:
  "ok st \<Longrightarrow> b_alerts d = Some new \<Longrightarrow> new \<noteq> [] \<Longrightarrow>
   alerts (snd (fetchAlerts True (Responds st (JsonObject d)) s)) = new"
  by (simp add: fetchAlerts_def fetchAlerts_try_def Let_def)

lemma fetchAlerts_keeps_on_failure:
  "failure r \<Longrightarrow> alerts (snd (fetchAlerts mounted r s)) = alerts s"
  by (auto simp add: failure_def fetchAlerts_def fetchAlerts_try_def Let_def
      split: fetch_result.splits json.splits option.splits if_splits sum.splits)

lemma proxy_error_is_failure:
  "\<not> ok (fst (alerts_GET message upstream)) \<Longrightarrow>
   failure (Responds (fst (alerts_GET message upstream)) (snd (alerts_GET message upstream)))"
  by (simp add: failure_def split: json.splits)

text \<open>
  Claim C9.  A poll never throws.  The displayed list changes only when the fetch
  answers 2xx with a JSON body whose \<open>alerts\<close> is a non-empty array, and then it is
  exactly that array; with the view still mounted such an answer does replace the list.
  On every failure the list is the one displayed before; so it is when the proxy route
  answers 500 or 502, which it does when the monitoring service cannot be reached or
  answers with an error.
\<close>

theorem poller_frame:
  "fst (fetchAlerts mounted r s) = Inr ()
   \<and> (alerts (snd (fetchAlerts mounted r s)) \<noteq> alerts s \<longrightarrow>
        (\<exists>st d. r = Responds st (JsonObject d) \<and> ok st \<and> mounted
                \<and> b_alerts d = Some (alerts (snd (fetchAlerts mounted r s)))
                \<and> alerts (snd (fetchAlerts mounted r s)) \<noteq> []))
   \<and> (ok st \<and> b_alerts d = Some new \<and> new \<noteq> [] \<longrightarrow>
        alerts (snd (fetchAlerts True (Responds st (JsonObject d)) s)) = new)
   \<and> (failure r \<longrightarrow> alerts (snd (fetchAlerts mounted r s)) = alerts s)
   \<and> (\<not> ok (fst (alerts_GET message upstream)) \<longrightarrow>
        fst (poll_via_proxy mounted message upstream s) = Inr ()
        \<and> alerts (snd (poll_via_proxy mounted message upstream s)) = alerts s)
   \<and> fst (alerts_GET message Rejects) = 500"
proof (intro conjI impI)
  show "fst (fetchAlerts mounted r s) = Inr ()"
    by (rule fetchAlerts_returns)
  show "fst (alerts_GET message Rejects) = 500"
    by (simp add: alerts_GET_def)
next
  assume "alerts (snd (fetchAlerts mounted r s)) \<noteq> alerts s"
  then show "\<exists>st d. r = Responds st (JsonObject d) \<and> ok st \<and> mounted
                \<and> b_alerts d = Some (alerts (snd (fetchAlerts mounted r s)))
                \<and> alerts (snd (fetchAlerts mounted r s)) \<noteq> []"
    by (rule fetchAlerts_replaces_only_on_success)
next
  assume "ok st \<and> b_alerts d = Some new \<and> new \<noteq> []"
  then show "alerts (snd (fetchAlerts True (Responds st (JsonObject d)) s)) = new"
    by (simp add: fetchAlerts_replaces_on_success)
next
  assume "failure r"
  then show "alerts (snd (fetchAlerts mounted r s)) = alerts s"
    by (rule fetchAlerts_keeps_on_failure)
next
  assume e: "\<not> ok (fst (alerts_GET message upstream))"
  show "fst (poll_via_proxy mounted message upstream s) = Inr ()"
    by (simp add: poll_via_proxy_def fetchAlerts_returns split: prod.splits)
  from proxy_error_is_failure [OF e]
  show "alerts (snd (poll_via_proxy mounted message upstream s)) = alerts s"
    by (cases "alerts_GET message upstream")
       (simp add: poll_via_proxy_def fetchAlerts_keeps_on_failure)
qed

text \<open>
  The monitoring service cannot be reached while two alerts are displayed; and a poll
  that brings one alert.
\<close>

theorem poller_frame_witness:
  "failure (Responds 500 (JsonObject \<lparr>b_alerts = Some ([] :: nat list), b_error = Some (js ''fetch failed'')\<rparr>))
   \<and> \<not> ok (fst (alerts_GET (Some (js ''fetch failed'')) (Rejects :: nat alerts_body fetch_result)))
   \<and> poll_via_proxy True (Some (js ''fetch failed'')) Rejects idle_poller
     = (Inr (), \<lparr>alerts = [1, 2], loadingAlerts = False\<rparr>)
   \<and> ok 200
   \<and> alerts (snd (fetchAlerts True
        (Responds 200 (JsonObject \<lparr>b_alerts = Some [7], b_error = None\<rparr>)) idle_poller)) = [7]
   \<and> alerts (snd (fetchAlerts True
        (Responds 200 (JsonObject \<lparr>b_alerts = Some [7], b_error = None\<rparr>)) idle_poller))
     \<noteq> alerts idle_poller"
proof -
  have f: "failure (Responds 500 (JsonObject \<lparr>b_alerts = Some ([] :: nat list),
                      b_error = Some (js ''fetch failed'')\<rparr>))"
    by (simp add: failure_def ok_def)
  have g: "alerts_GET (Some (js ''fetch failed'')) (Rejects :: nat alerts_body fetch_result)
           = (500, JsonObject \<lparr>b_alerts = Some [], b_error = Some (js ''fetch failed'')\<rparr>)"
    by (simp add: alerts_GET_def js_def)
  have k: "ok 200" "\<not> ok 500"
    by (simp_all add: ok_def)
  from poller_frame [of True
      "Responds 500 (JsonObject \<lparr>b_alerts = Some [], b_error = Some (js ''fetch failed'')\<rparr>)"
      idle_poller 200 "\<lparr>b_alerts = Some [7], b_error = None\<rparr>" "[7]"
      "Some (js ''fetch failed'')" Rejects]
    f g k
  show ?thesis
    by (cases "poll_via_proxy True (Some (js ''fetch failed'')) Rejects idle_poller")
       (simp add: idle_poller_def poll_via_proxy_def fetchAlerts_def fetchAlerts_try_def
          Let_def)
qed

section \<open>The narrative page\<close>

subsection \<open>What the effect and a response change\<close>

lemma finish_frame:
  "handleTranslate_finish s text l a = (v, s') \<Longrightarrow>
   selectedLanguage s' = selectedLanguage s \<and> lastTranslatedLangRef s' = lastTranslatedLangRef s
   \<and> originalGeneratedText s' = originalGeneratedText s \<and> calls s' = calls s
   \<and> generatedText s' = generatedText s"
  by (cases a) (auto simp add: handleTranslate_finish_def)

lemma start_frame:
  "handleTranslate_start s text l = (v, s') \<Longrightarrow>
   selectedLanguage s' = selectedLanguage s \<and> lastTranslatedLangRef s' = lastTranslatedLangRef s
   \<and> originalGeneratedText s' = originalGeneratedText s"
  unfolding handleTranslate_start_def Let_def
  by (auto split: if_splits prod.splits dest!: finish_frame)

lemma start_calls:
  "handleTranslate_start s text l = (v, s') \<Longrightarrow>
   (v = None \<longrightarrow>
      calls s' = calls s @ [\<lparr>c_text = text, c_targetLang = l, c_pending = True\<rparr>])
   \<and> (v \<noteq> None \<longrightarrow> calls s' = calls s)"
  unfolding handleTranslate_start_def Let_def
  by (auto split: if_splits prod.splits dest!: finish_frame)

lemma show_frame:
  "selectedLanguage (show_translation s t) = selectedLanguage s"
  "lastTranslatedLangRef (show_translation s t) = lastTranslatedLangRef s"
  "originalGeneratedText (show_translation s t) = originalGeneratedText s"
  "calls (show_translation s t) = calls s"
  "generatedText (show_translation s t) = t"
  by (simp_all add: show_translation_def)

lemma auto_translate_unfold:
  assumes "guard s"
  obtains v s' where
    "handleTranslate_start
       (s\<lparr>lastTranslatedLangRef := selectedLanguage s, hasShownTranslationNoteRef := False\<rparr>)
       (originalGeneratedText s) (selectedLanguage s) = (v, s')"
    and "auto_translate s = (case v of Some t \<Rightarrow> show_translation s' t | None \<Rightarrow> s')"
proof -
  obtain v s' where st:
    "handleTranslate_start
       (s\<lparr>lastTranslatedLangRef := selectedLanguage s, hasShownTranslationNoteRef := False\<rparr>)
       (originalGeneratedText s) (selectedLanguage s) = (v, s')"
    by (cases "handleTranslate_start
       (s\<lparr>lastTranslatedLangRef := selectedLanguage s, hasShownTranslationNoteRef := False\<rparr>)
       (originalGeneratedText s) (selectedLanguage s)") blast
  moreover from assms st
  have "auto_translate s = (case v of Some t \<Rightarrow> show_translation s' t | None \<Rightarrow> s')"
    by (simp add: auto_translate_def guard_def Let_def)
  ultimately show thesis
    by (rule that)
qed

lemma auto_translate_guard:
  assumes "guard s"
  shows "selectedLanguage (auto_translate s) = selectedLanguage s"
    and "lastTranslatedLangRef (auto_translate s) = selectedLanguage s"
    and "originalGeneratedText (auto_translate s) = originalGeneratedText s"
    and "calls (auto_translate s) = calls s
         \<or> calls (auto_translate s)
           = calls s @ [\<lparr>c_text = originalGeneratedText s, c_targetLang = selectedLanguage s,
                         c_pending = True\<rparr>]"
proof -
  from assms obtain v s' where st:
    "handleTranslate_start
       (s\<lparr>lastTranslatedLangRef := selectedLanguage s, hasShownTranslationNoteRef := False\<rparr>)
       (originalGeneratedText s) (selectedLanguage s) = (v, s')"
    and at: "auto_translate s = (case v of Some t \<Rightarrow> show_translation s' t | None \<Rightarrow> s')"
    by (rule auto_translate_unfold)
  from start_frame [OF st] show "selectedLanguage (auto_translate s) = selectedLanguage s"
    and "lastTranslatedLangRef (auto_translate s) = selectedLanguage s"
    and "originalGeneratedText (auto_translate s) = originalGeneratedText s"
    by (simp_all add: at show_frame split: option.splits)
  from start_calls [OF st] show "calls (auto_translate s) = calls s
         \<or> calls (auto_translate s)
           = calls s @ [\<lparr>c_text = originalGeneratedText s, c_targetLang = selectedLanguage s,
                         c_pending = True\<rparr>]"
    by (cases v) (simp_all add: at show_frame)
qed

lemma auto_translate_english:
  "selectedLanguage s = js ''en'' \<Longrightarrow> originalGeneratedText s \<noteq> [] \<Longrightarrow>
   auto_translate s
   = s\<lparr>generatedText := originalGeneratedText s, lastTranslatedLangRef := js ''en'',
       hasShownTranslationNoteRef := False\<rparr>"
  by (simp add: auto_translate_def)

lemma auto_translate_rest:
  "\<not> guard s \<Longrightarrow> \<not> (selectedLanguage s = js ''en'' \<and> originalGeneratedText s \<noteq> []) \<Longrightarrow>
   auto_translate s = s"
  by (auto simp add: auto_translate_def guard_def)

lemma auto_translate_selected: "selectedLanguage (auto_translate s) = selectedLanguage s"
proof (cases "guard s")
  case True
  then show ?thesis by (rule auto_translate_guard)
next
  case False
  then show ?thesis
    by (cases "selectedLanguage s = js ''en'' \<and> originalGeneratedText s \<noteq> []")
       (simp_all add: auto_translate_english auto_translate_rest)
qed

text \<open>Running the effect again changes nothing: one run after each render is enough.\<close>

lemma auto_translate_idem: "auto_translate (auto_translate s) = auto_translate s"
proof (cases "guard s")
  case True
  from auto_translate_guard(1-3) [OF True] True show ?thesis
    by (intro auto_translate_rest) (simp_all add: guard_def)
next
  case False
  show ?thesis
  proof (cases "selectedLanguage s = js ''en'' \<and> originalGeneratedText s \<noteq> []")
    case True
    then show ?thesis by (simp add: auto_translate_english)
  next
    case F: False
    with False show ?thesis by (simp add: auto_translate_rest)
  qed
qed

lemma auto_translate_calls:
  "calls (auto_translate s) = calls s
   \<or> guard s
     \<and> calls (auto_translate s)
       = calls s @ [\<lparr>c_text = originalGeneratedText s, c_targetLang = selectedLanguage s,
                     c_pending = True\<rparr>]"
proof (cases "guard s")
  case True
  with auto_translate_guard(4) [OF True] show ?thesis by blast
next
  case False
  then show ?thesis
    by (cases "selectedLanguage s = js ''en'' \<and> originalGeneratedText s \<noteq> []")
       (simp_all add: auto_translate_english auto_translate_rest)
qed

lemma select_again: "step (step s (SelectLanguage l)) (SelectLanguage l) = step s (SelectLanguage l)"
proof -
  have "selectedLanguage (step s (SelectLanguage l)) = l"
    by (simp add: step_def auto_translate_selected)
  then have "handle (step s (SelectLanguage l)) (SelectLanguage l) = step s (SelectLanguage l)"
    by (cases "step s (SelectLanguage l)") simp
  then have "step (step s (SelectLanguage l)) (SelectLanguage l)
             = auto_translate (step s (SelectLanguage l))"
    by (simp add: step_def [of "step s (SelectLanguage l)"])
  then show ?thesis
    by (simp add: step_def auto_translate_idem)
qed

lemma select_issues:
  assumes "goes_to_network (originalGeneratedText s)" "l \<noteq> []" "l \<noteq> js ''en''"
    and "lastTranslatedLangRef s \<noteq> l"
  shows "step s (SelectLanguage l)
         = s\<lparr>selectedLanguage := l, lastTranslatedLangRef := l,
             hasShownTranslationNoteRef := False, isTranslating := True,
             translationProgress := 30, hook := translate_begin (hook s),
             calls := calls s @ [\<lparr>c_text = originalGeneratedText s, c_targetLang = l,
                                   c_pending = True\<rparr>]\<rparr>"
  using assms
  by (simp add: step_def auto_translate_def handleTranslate_start_def goes_to_network_def
      Let_def)

lemma deliver_frame:
  assumes "k < length (calls s)" "c_pending (calls s ! k)"
  shows "generatedText (deliver s k r)
         = rendering (c_text (calls s ! k)) (c_targetLang (calls s ! k)) r"
    and "selectedLanguage (deliver s k r) = selectedLanguage s"
    and "lastTranslatedLangRef (deliver s k r) = lastTranslatedLangRef s"
    and "originalGeneratedText (deliver s k r) = originalGeneratedText s"
    and "calls (deliver s k r) = (calls s)[k := (calls s ! k)\<lparr>c_pending := False\<rparr>]"
  using assms
  by (cases "translate_try r (c_text (calls s ! k))";
      simp add: deliver_def translate_settle_def handleTranslate_finish_def
        show_translation_def rendering_def Let_def)+

lemma response_step:
  assumes "k < length (calls s)" "c_pending (calls s ! k)"
    and "selectedLanguage s \<noteq> js ''en''" "lastTranslatedLangRef s = selectedLanguage s"
  shows "step s (Response k r) = deliver s k r"
  using assms by (simp add: step_def auto_translate_rest guard_def deliver_frame)

subsection \<open>Back to English\<close>

text \<open>
  Claim C5.  In every state with a generated narrative, choosing English sets the
  displayed text to the original narrative and the last-translated language to \<open>en\<close>;
  no request is sent, the calls made so far are as they were.
\<close>

theorem switch_to_english_restores:
  assumes "originalGeneratedText s \<noteq> []"
  shows "generatedText (step s (SelectLanguage (js ''en''))) = originalGeneratedText s
         \<and> lastTranslatedLangRef (step s (SelectLanguage (js ''en''))) = js ''en''
         \<and> selectedLanguage (step s (SelectLanguage (js ''en''))) = js ''en''
         \<and> originalGeneratedText (step s (SelectLanguage (js ''en''))) = originalGeneratedText s
         \<and> calls (step s (SelectLanguage (js ''en''))) = calls s
         \<and> network_calls (step s (SelectLanguage (js ''en''))) = network_calls s"
  using assms by (simp add: step_def auto_translate_english network_calls_def)

text \<open>From the page that shows the Hindi translation.\<close>

theorem switch_to_english_restores_witness:
  "originalGeneratedText hindi_page \<noteq> [] \<and> generatedText hindi_page = js ''namaste''
   \<and> generatedText (step hindi_page (SelectLanguage (js ''en''))) = js ''Hello''
   \<and> lastTranslatedLangRef (step hindi_page (SelectLanguage (js ''en''))) = js ''en''
   \<and> network_calls (step hindi_page (SelectLanguage (js ''en'')))
     = [request ''Hello'' ''en'' ''hi'']"
proof -
  have o: "originalGeneratedText hindi_page \<noteq> []"
    by (simp add: hindi_page_def js_def)
  from switch_to_english_restores [OF o] o show ?thesis
    by (simp add: hindi_page_def network_calls_def request_of_def request_def)
qed

subsection \<open>Choosing the same language twice\<close>

text \<open>
  Claim C2.  In every state, choosing a language \<open>l\<close> and choosing it again sends at
  most one request in all: the second choice sends none (it leaves the state as the
  first left it), and the first sends one at most, and only if the narrative is not
  empty, \<open>l\<close> is set and is not \<open>en\<close>, and \<open>l\<close> is not the last-translated language.
\<close>

theorem switch_twice_one_call:
  "length (network_calls (step (step s (SelectLanguage l)) (SelectLanguage l)))
   \<le> length (network_calls s) + 1
   \<and> network_calls (step (step s (SelectLanguage l)) (SelectLanguage l))
     = network_calls (step s (SelectLanguage l))
   \<and> (network_calls (step s (SelectLanguage l)) \<noteq> network_calls s \<longrightarrow>
        originalGeneratedText s \<noteq> [] \<and> l \<noteq> [] \<and> l \<noteq> js ''en''
        \<and> lastTranslatedLangRef s \<noteq> l
        \<and> network_calls (step s (SelectLanguage l))
          = network_calls s
            @ [\<lparr>r_text = Some (originalGeneratedText s), r_sourceLang = Some (js ''en''),
                r_targetLang = Some l\<rparr>])"
proof -
  let ?t = "s\<lparr>selectedLanguage := l\<rparr>"
  have st: "step s (SelectLanguage l) = auto_translate ?t"
    by (simp add: step_def)
  from auto_translate_calls [of ?t]
  have "network_calls (auto_translate ?t) = network_calls s
        \<or> guard ?t
          \<and> network_calls (auto_translate ?t)
            = network_calls s
              @ [\<lparr>r_text = Some (originalGeneratedText s), r_sourceLang = Some (js ''en''),
                  r_targetLang = Some l\<rparr>]"
    by (auto simp add: network_calls_def request_of_def)
  then show ?thesis
    by (simp only: select_again) (auto simp add: st guard_def)
qed

text \<open>A fresh page, Hindi chosen twice: one request.\<close>

theorem switch_twice_one_call_witness:
  "network_calls (step (fresh_page ''Hello'') (SelectLanguage (js ''hi'')))
   \<noteq> network_calls (fresh_page ''Hello'')
   \<and> network_calls (step (step (fresh_page ''Hello'') (SelectLanguage (js ''hi'')))
        (SelectLanguage (js ''hi'')))
     = [request ''Hello'' ''en'' ''hi'']"
proof -
  have "network_calls (fresh_page ''Hello'') = []"
    by (simp add: network_calls_def fresh_page_def)
  moreover have "network_calls (step (fresh_page ''Hello'') (SelectLanguage (js ''hi'')))
        = [request ''Hello'' ''en'' ''hi'']"
    using select_issues [of "fresh_page ''Hello''" "js ''hi''"] hello_goes_to_network
    by (simp add: fresh_page_def network_calls_def request_of_def request_def js_def)
  ultimately show ?thesis
    using switch_twice_one_call [of "fresh_page ''Hello''" "js ''hi''"]
    by simp
qed

subsection \<open>Two requests in flight\<close>

text \<open>
  Claim C1, as amended.  A request for language \<open>a\<close> is sent, then, before it is
  answered, one for language \<open>b\<close> (neither is English); the answer for \<open>b\<close> arrives
  first and is displayed; the answer for \<open>a\<close> arrives after it and is displayed in its
  place.  At the end the page shows what the answer for \<open>a\<close> gives, while the selected
  and the last-translated language are \<open>b\<close>: answers are applied in the order they
  arrive, none is discarded.
\<close>

theorem race_completion_order:
  assumes "goes_to_network (originalGeneratedText s)"
    and "a \<noteq> []" "a \<noteq> js ''en''" "lastTranslatedLangRef s \<noteq> a"
    and "b \<noteq> []" "b \<noteq> js ''en''" "b \<noteq> a"
  shows "generatedText (run s [SelectLanguage a, SelectLanguage b,
                                Response (length (calls s) + 1) rb])
         = rendering (originalGeneratedText s) b rb
         \<and> generatedText (run s [SelectLanguage a, SelectLanguage b,
                                  Response (length (calls s) + 1) rb,
                                  Response (length (calls s)) ra])
           = rendering (originalGeneratedText s) a ra
         \<and> selectedLanguage (run s [SelectLanguage a, SelectLanguage b,
                                     Response (length (calls s) + 1) rb,
                                     Response (length (calls s)) ra]) = b
         \<and> lastTranslatedLangRef (run s [SelectLanguage a, SelectLanguage b,
                                          Response (length (calls s) + 1) rb,
                                          Response (length (calls s)) ra]) = b
         \<and> network_calls (run s [SelectLanguage a, SelectLanguage b,
                                  Response (length (calls s) + 1) rb,
                                  Response (length (calls s)) ra])
           = network_calls s
             @ [\<lparr>r_text = Some (originalGeneratedText s), r_sourceLang = Some (js ''en''),
                 r_targetLang = Some a\<rparr>,
                \<lparr>r_text = Some (originalGeneratedText s), r_sourceLang = Some (js ''en''),
                 r_targetLang = Some b\<rparr>]"
proof -
  let ?n = "length (calls s)"
  let ?o = "originalGeneratedText s"
  let ?ca = "\<lparr>c_text = ?o, c_targetLang = a, c_pending = True\<rparr>"
  let ?cb = "\<lparr>c_text = ?o, c_targetLang = b, c_pending = True\<rparr>"
  define s1 where "s1 = step s (SelectLanguage a)"
  define s2 where "s2 = step s1 (SelectLanguage b)"
  define s3 where "s3 = step s2 (Response (?n + 1) rb)"
  define s4 where "s4 = step s3 (Response ?n ra)"
  have s1: "originalGeneratedText s1 = ?o" "lastTranslatedLangRef s1 = a"
    "calls s1 = calls s @ [?ca]"
    unfolding s1_def using assms(1-4) by (simp_all add: select_issues)
  from s1 assms have "step s1 (SelectLanguage b)
      = s1\<lparr>selectedLanguage := b, lastTranslatedLangRef := b,
           hasShownTranslationNoteRef := False, isTranslating := True,
           translationProgress := 30, hook := translate_begin (hook s1),
           calls := calls s1 @ [\<lparr>c_text = originalGeneratedText s1, c_targetLang = b,
                                  c_pending = True\<rparr>]\<rparr>"
    by (intro select_issues) simp_all
  with s1 have s2: "originalGeneratedText s2 = ?o" "lastTranslatedLangRef s2 = b"
    "selectedLanguage s2 = b" "calls s2 = calls s @ [?ca, ?cb]"
    unfolding s2_def by simp_all
  have p3: "?n + 1 < length (calls s2)" "c_pending (calls s2 ! (?n + 1))"
    "calls s2 ! (?n + 1) = ?cb"
    by (simp_all add: s2 nth_append)
  with s2 assms have d3: "s3 = deliver s2 (?n + 1) rb"
    unfolding s3_def by (intro response_step) simp_all
  from deliver_frame [OF p3(1,2), of rb] p3(3) s2
  have s3: "generatedText s3 = rendering ?o b rb" "selectedLanguage s3 = b"
    "lastTranslatedLangRef s3 = b"
    "calls s3 = calls s @ [?ca, ?cb\<lparr>c_pending := False\<rparr>]"
    by (simp_all add: d3 list_update_append)
  have p4: "?n < length (calls s3)" "c_pending (calls s3 ! ?n)" "calls s3 ! ?n = ?ca"
    by (simp_all add: s3 nth_append)
  with s3 assms have d4: "s4 = deliver s3 ?n ra"
    unfolding s4_def by (intro response_step) simp_all
  from deliver_frame [OF p4(1,2), of ra] p4(3) s3
  have s4: "generatedText s4 = rendering ?o a ra" "selectedLanguage s4 = b"
    "lastTranslatedLangRef s4 = b"
    "calls s4 = calls s @ [?ca\<lparr>c_pending := False\<rparr>, ?cb\<lparr>c_pending := False\<rparr>]"
    by (simp_all add: d4 list_update_append)
  have r3: "run s [SelectLanguage a, SelectLanguage b, Response (?n + 1) rb] = s3"
    by (simp add: run_def s1_def s2_def s3_def)
  have r4: "run s [SelectLanguage a, SelectLanguage b, Response (?n + 1) rb, Response ?n ra]
            = s4"
    by (simp add: run_def s1_def s2_def s3_def s4_def)
  show ?thesis
    unfolding r3 r4 by (simp add: s3 s4 network_calls_def request_of_def)
qed

text \<open>
  A page with \<open>Good morning\<close>: Bengali, then Marathi; the Marathi answer arrives, then
  the Bengali one.
\<close>

theorem race_completion_order_witness:
  "goes_to_network (originalGeneratedText (fresh_page ''Good morning''))
   \<and> lastTranslatedLangRef (fresh_page ''Good morning'') \<noteq> js ''bn''
   \<and> js ''mr'' \<noteq> js ''bn''
   \<and> generatedText (run (fresh_page ''Good morning'')
        [SelectLanguage (js ''bn''), SelectLanguage (js ''mr''),
         Response 1 (translated_as ''suprabhat''), Response 0 (translated_as ''suprobhat'')])
     = js ''suprobhat''
   \<and> selectedLanguage (run (fresh_page ''Good morning'')
        [SelectLanguage (js ''bn''), SelectLanguage (js ''mr''),
         Response 1 (translated_as ''suprabhat''), Response 0 (translated_as ''suprobhat'')])
     = js ''mr''"
proof -
  have g: "goes_to_network (originalGeneratedText (fresh_page ''Good morning''))"
    by (simp add: goes_to_network_def fresh_page_def js_def trim_def is_space_def)
  have l: "js ''bn'' \<noteq> []" "js ''bn'' \<noteq> js ''en''"
    "lastTranslatedLangRef (fresh_page ''Good morning'') \<noteq> js ''bn''"
    "js ''mr'' \<noteq> []" "js ''mr'' \<noteq> js ''en''" "js ''mr'' \<noteq> js ''bn''"
    by (simp_all add: fresh_page_def js_def)
  have n: "length (calls (fresh_page ''Good morning'')) = 0"
    by (simp add: fresh_page_def)
  have r: "rendering (js ''Good morning'') (js ''bn'') (translated_as ''suprobhat'')
           = js ''suprobhat''"
    by (simp add: rendering_def translate_try_def translated_as_def empty_body_def ok_def
        js_def)
  from race_completion_order [OF g l, of "translated_as ''suprabhat''"
      "translated_as ''suprobhat''"] g l n r
  show ?thesis
    by (simp add: fresh_page_def)
qed

text \<open>
  Claim C1 as stated fails: Hindi, then Tamil; the Tamil answer arrives first, the
  Hindi answer after it.  The page ends with the Hindi text while Tamil is selected.
\<close>

theorem race_counterexample:
  "generatedText (run (fresh_page ''Hello'')
     [SelectLanguage (js ''hi''), SelectLanguage (js ''ta''),
      Response 1 (translated_as ''vanakkam''), Response 0 (translated_as ''namaste'')])
   = js ''namaste''
   \<and> generatedText (run (fresh_page ''Hello'')
       [SelectLanguage (js ''hi''), SelectLanguage (js ''ta''),
        Response 1 (translated_as ''vanakkam''), Response 0 (translated_as ''namaste'')])
     \<noteq> js ''vanakkam''
   \<and> selectedLanguage (run (fresh_page ''Hello'')
       [SelectLanguage (js ''hi''), SelectLanguage (js ''ta''),
        Response 1 (translated_as ''vanakkam''), Response 0 (translated_as ''namaste'')])
     = js ''ta''
   \<and> network_calls (run (fresh_page ''Hello'')
       [SelectLanguage (js ''hi''), SelectLanguage (js ''ta''),
        Response 1 (translated_as ''vanakkam''), Response 0 (translated_as ''namaste'')])
     = [request ''Hello'' ''en'' ''hi'', request ''Hello'' ''en'' ''ta'']"
  by (simp add: run_def page_defs fresh_page_def translated_as_def empty_body_def
      trim_def is_space_def network_calls_def request_of_def request_def js_def)

end
